theory Spec2Isabelle
  imports Main
begin

section \<open>Values exchanged between the host and the embedded interpreter\<close>

text \<open>
  The driver (class \<open>SequentialFetchVM\<close> of \<open>sequential-fetch-vm-lib.js\<close>) talks to two
  external libraries: the interpreter (\<open>quickjs-emscripten\<close>) and the parser (\<open>acorn\<close>).
  Values that cross the boundary are modelled by one datatype. \<open>JNative\<close> is an opaque
  intrinsic or host function identified by its name, \<open>JGlobal\<close> is the reference to the
  global object itself. Numbers are the integers; objects are property lists in insertion
  order.
\<close>

datatype jsval =
    JUndefined
  | JNull
  | JBool bool
  | JNum int
  | JBigInt int
  | JStr string
  | JArr "jsval list"
  | JObj "(string \<times> jsval) list"
  | JNative string
  | JGlobal

datatype 'a jsonres = JsonThrows | JsonUndefined | JsonVal 'a

subsection \<open>Decimal rendering\<close>

definition digitChar :: "nat \<Rightarrow> char" where
  "digitChar d =
     (if d = 0 then CHR ''0'' else if d = 1 then CHR ''1'' else if d = 2 then CHR ''2''
      else if d = 3 then CHR ''3'' else if d = 4 then CHR ''4'' else if d = 5 then CHR ''5''
      else if d = 6 then CHR ''6'' else if d = 7 then CHR ''7'' else if d = 8 then CHR ''8''
      else CHR ''9'')"

fun showNat :: "nat \<Rightarrow> string" where
  "showNat n = (if n < 10 then [digitChar n] else showNat (n div 10) @ [digitChar (n mod 10)])"

declare showNat.simps [simp del]

definition showInt :: "int \<Rightarrow> string" where
  "showInt i = (if i < 0 then CHR ''-'' # showNat (nat (- i)) else showNat (nat i))"

subsection \<open>JSON.stringify\<close>

text \<open>
  \<open>JSON.stringify\<close> is the composition of a normalisation (\<open>jsonValue\<close>: what survives,
  what is dropped, what throws) and the rendering of the normalised value as text.
  Functions and \<open>undefined\<close> give \<open>undefined\<close> at top level, are omitted as property values
  and become \<open>null\<close> as array elements; a BigInt and the (cyclic) global object throw.
\<close>

definition nativeJson :: "string \<Rightarrow> jsval jsonres" where
  "nativeJson n =
     (if n = ''Math'' \<or> n = ''JSON'' then JsonVal (JObj [])
      else if n = ''NaN'' \<or> n = ''Infinity'' then JsonVal JNull
      else JsonUndefined)"

fun jsonValue :: "jsval \<Rightarrow> jsval jsonres"
  and jsonElems :: "jsval list \<Rightarrow> jsval list option"
  and jsonProps :: "(string \<times> jsval) list \<Rightarrow> (string \<times> jsval) list option" where
  "jsonValue JUndefined = JsonUndefined"
| "jsonValue JNull = JsonVal JNull"
| "jsonValue (JBool b) = JsonVal (JBool b)"
| "jsonValue (JNum n) = JsonVal (JNum n)"
| "jsonValue (JBigInt n) = JsonThrows"
| "jsonValue (JStr s) = JsonVal (JStr s)"
| "jsonValue (JArr xs) = (case jsonElems xs of None \<Rightarrow> JsonThrows | Some ys \<Rightarrow> JsonVal (JArr ys))"
| "jsonValue (JObj kvs) = (case jsonProps kvs of None \<Rightarrow> JsonThrows | Some ps \<Rightarrow> JsonVal (JObj ps))"
| "jsonValue (JNative n) = nativeJson n"
| "jsonValue JGlobal = JsonThrows"
| "jsonElems [] = Some []"
| "jsonElems (x # xs) =
     (case jsonValue x of
        JsonThrows \<Rightarrow> None
      | JsonUndefined \<Rightarrow> map_option (\<lambda>ys. JNull # ys) (jsonElems xs)
      | JsonVal y \<Rightarrow> map_option (\<lambda>ys. y # ys) (jsonElems xs))"
| "jsonProps [] = Some []"
| "jsonProps (kv # kvs) =
     (case jsonValue (snd kv) of
        JsonThrows \<Rightarrow> None
      | JsonUndefined \<Rightarrow> jsonProps kvs
      | JsonVal y \<Rightarrow> map_option (\<lambda>ps. (fst kv, y) # ps) (jsonProps kvs))"

definition hexChar :: "nat \<Rightarrow> char" where
  "hexChar d =
     (if d < 10 then digitChar d
      else if d = 10 then CHR ''a'' else if d = 11 then CHR ''b'' else if d = 12 then CHR ''c''
      else if d = 13 then CHR ''d'' else if d = 14 then CHR ''e'' else CHR ''f'')"

definition isControl :: "char \<Rightarrow> bool" where
  "isControl c = ((of_char c :: nat) < 32)"


text \<open>
  \<open>QuoteJSONString\<close>: the quote and the backslash are escaped, a control character is
  written as one of the short escapes or as \<open>\u00XX\<close>.
\<close>

definition escapeChar :: "char \<Rightarrow> string" where
  "escapeChar c =
     (if isControl c then
        (if c = CHR 0x08 then [CHR 0x5C, CHR ''b'']
         else if c = CHR 0x0C then [CHR 0x5C, CHR ''f'']
         else if c = CHR 0x0A then [CHR 0x5C, CHR ''n'']
         else if c = CHR 0x0D then [CHR 0x5C, CHR ''r'']
         else if c = CHR 0x09 then [CHR 0x5C, CHR ''t'']
         else [CHR 0x5C, CHR ''u'', CHR ''0'', CHR ''0'',
               hexChar ((of_char c :: nat) div 16), hexChar ((of_char c :: nat) mod 16)])
      else if c = CHR 0x22 then [CHR 0x5C, CHR 0x22]
      else if c = CHR 0x5C then [CHR 0x5C, CHR 0x5C]
      else [c])"

definition quoteJSON :: "string \<Rightarrow> string" where
  "quoteJSON s = CHR 0x22 # concat (map escapeChar s) @ [CHR 0x22]"

fun render :: "jsval \<Rightarrow> string"
  and renderElems :: "jsval list \<Rightarrow> string"
  and renderProps :: "(string \<times> jsval) list \<Rightarrow> string" where
  "render JNull = ''null''"
| "render (JBool b) = (if b then ''true'' else ''false'')"
| "render (JNum n) = showInt n"
| "render (JStr s) = quoteJSON s"
| "render (JArr xs) = ''['' @ renderElems xs @ '']''"
| "render (JObj kvs) = ''{'' @ renderProps kvs @ ''}''"
| "render JUndefined = ''null''"
| "render (JBigInt n) = ''null''"
| "render (JNative n) = ''null''"
| "render JGlobal = ''null''"
| "renderElems [] = []"
| "renderElems (x # xs) = render x @ (if xs = [] then [] else '','' @ renderElems xs)"
| "renderProps [] = []"
| "renderProps (kv # kvs) =
     quoteJSON (fst kv) @ '':'' @ render (snd kv) @ (if kvs = [] then [] else '','' @ renderProps kvs)"

definition stringify :: "jsval \<Rightarrow> string jsonres" where
  "stringify v =
     (case jsonValue v of
        JsonThrows \<Rightarrow> JsonThrows
      | JsonUndefined \<Rightarrow> JsonUndefined
      | JsonVal j \<Rightarrow> JsonVal (render j))"

text \<open>
  A template literal \<open>${JSON.stringify(v)}\<close>: the text, \<open>undefined\<close> spelled out, or
  \<open>None\<close> when \<open>JSON.stringify\<close> throws.
\<close>

definition stringifyTemplate :: "jsval \<Rightarrow> string option" where
  "stringifyTemplate v =
     (case stringify v of
        JsonThrows \<Rightarrow> None
      | JsonUndefined \<Rightarrow> Some ''undefined''
      | JsonVal t \<Rightarrow> Some t)"

subsection \<open>String conversion and \<open>vm.dump\<close>\<close>

fun toStringJS :: "jsval \<Rightarrow> string"
  and joinElems :: "jsval list \<Rightarrow> string" where
  "toStringJS JUndefined = ''undefined''"
| "toStringJS JNull = ''null''"
| "toStringJS (JBool b) = (if b then ''true'' else ''false'')"
| "toStringJS (JNum n) = showInt n"
| "toStringJS (JBigInt n) = showInt n"
| "toStringJS (JStr s) = s"
| "toStringJS (JArr xs) = joinElems xs"
| "toStringJS (JObj kvs) = ''[object Object]''"
| "toStringJS (JNative n) = ''function '' @ n @ ''() { [native code] }''"
| "toStringJS JGlobal = ''[object global]''"
| "joinElems [] = []"
| "joinElems (x # xs) =
     (if x = JUndefined \<or> x = JNull then [] else toStringJS x)
     @ (if xs = [] then [] else '','' @ joinElems xs)"

text \<open>
  \<open>vm.dump(handle)\<close> of the interpreter binding: strings, numbers, BigInts and
  \<open>undefined\<close> are read directly; everything else goes through a JSON round trip inside
  the interpreter, and falls back to the string conversion when that fails.
\<close>

definition dump :: "jsval \<Rightarrow> jsval" where
  "dump v =
     (case v of
        JStr s \<Rightarrow> v
      | JNum n \<Rightarrow> v
      | JBigInt n \<Rightarrow> v
      | JUndefined \<Rightarrow> v
      | _ \<Rightarrow> (case jsonValue v of JsonVal j \<Rightarrow> j | _ \<Rightarrow> JStr (toStringJS v)))"

section \<open>The two regular-expression rewrites of the driver\<close>

definition isWordChar :: "char \<Rightarrow> bool" where
  "isWordChar c =
     (let n = (of_char c :: nat)
      in (48 \<le> n \<and> n \<le> 57) \<or> (65 \<le> n \<and> n \<le> 90) \<or> (97 \<le> n \<and> n \<le> 122) \<or> n = 95)"

definition isSpaceJS :: "char \<Rightarrow> bool" where
  "isSpaceJS c = (let n = (of_char c :: nat) in n = 32 \<or> (9 \<le> n \<and> n \<le> 13))"

text \<open>
  The same classes read off the eight bits of a character (least significant first), for
  evaluation without arithmetic.
\<close>

lemma isWordChar_code [code]:
  "isWordChar (Char b0 b1 b2 b3 b4 b5 b6 b7) =
     (\<not> b7 \<and>
      ((b6 \<and> (b4 \<or> b3 \<or> b2 \<or> b1 \<or> b0) \<and> \<not> (b4 \<and> b3 \<and> (b2 \<or> (b1 \<and> b0))))
       \<or> (b6 \<and> \<not> b5 \<and> b4 \<and> b3 \<and> b2 \<and> b1 \<and> b0)
       \<or> (\<not> b6 \<and> b5 \<and> b4 \<and> (\<not> b3 \<or> (\<not> b2 \<and> \<not> b1)))))"
  by (cases b0; cases b1; cases b2; cases b3; cases b4; cases b5; cases b6; cases b7;
      simp add: isWordChar_def)


text \<open>
  \<open>new RegExp(`\\b(const|let|var)\\s+${varName}\\s*=`, 'g')\<close>, matched at the head of a
  string (the word boundary is checked by the caller). The name is spliced into the
  pattern unescaped: an identifier containing \<open>$\<close> gives a pattern with an end-of-input
  anchor in its middle, which matches nowhere. The result is the text after the match.
\<close>

definition matchKeyword :: "string \<Rightarrow> string option" where
  "matchKeyword s =
     (if take 5 s = ''const'' then Some (drop 5 s)
      else if take 3 s = ''let'' then Some (drop 3 s)
      else if take 3 s = ''var'' then Some (drop 3 s)
      else None)"

definition matchSpaces :: "string \<Rightarrow> string option" where
  "matchSpaces s =
     (case s of
        [] \<Rightarrow> None
      | c # r \<Rightarrow> if isSpaceJS c then Some (dropWhile isSpaceJS r) else None)"

definition matchAssign :: "string \<Rightarrow> string option" where
  "matchAssign s =
     (case dropWhile isSpaceJS s of
        [] \<Rightarrow> None
      | c # r \<Rightarrow> if c = CHR ''='' then Some r else None)"

definition matchName :: "string \<Rightarrow> string \<Rightarrow> string option" where
  "matchName varName s =
     (if take (length varName) s = varName then matchAssign (drop (length varName) s) else None)"

definition matchDecl :: "string \<Rightarrow> string \<Rightarrow> string option" where
  "matchDecl varName s =
     (if CHR ''$'' \<in> set varName then None
      else case matchKeyword s of
        None \<Rightarrow> None
      | Some r1 \<Rightarrow>
          (case matchSpaces r1 of
             None \<Rightarrow> None
           | Some r2 \<Rightarrow> matchName varName r2))"

lemma take_eq_length: "take n s = k \<Longrightarrow> length k = n \<Longrightarrow> n \<le> length s"
  by (metis length_take min.cobounded1)

lemma matchKeyword_shorter: "matchKeyword s = Some r \<Longrightarrow> length r < length s"
proof -
  assume m: "matchKeyword s = Some r"
  consider (c) "take 5 s = ''const''" "r = drop 5 s"
    | (l) "take 3 s = ''let''" "r = drop 3 s"
    | (v) "take 3 s = ''var''" "r = drop 3 s"
    using m unfolding matchKeyword_def by (simp split: if_splits)
  then show ?thesis
  proof cases
    case c
    from take_eq_length [OF c(1)] have "5 \<le> length s" by simp
    with c(2) show ?thesis by simp
  next
    case l
    from take_eq_length [OF l(1)] have "3 \<le> length s" by simp
    with l(2) show ?thesis by simp
  next
    case v
    from take_eq_length [OF v(1)] have "3 \<le> length s" by simp
    with v(2) show ?thesis by simp
  qed
qed

lemma dropWhile_length_le: "length (dropWhile P xs) \<le> length xs"
  by (induction xs) auto

lemma matchSpaces_shorter: "matchSpaces s = Some r \<Longrightarrow> length r < length s"
proof (cases s)
  case Nil
  assume "matchSpaces s = Some r"
  with Nil show ?thesis by (simp add: matchSpaces_def)
next
  case (Cons c cs)
  assume "matchSpaces s = Some r"
  with Cons have "r = dropWhile isSpaceJS cs"
    by (simp add: matchSpaces_def split: if_split_asm)
  with Cons show ?thesis
    using dropWhile_length_le [of isSpaceJS cs] by simp
qed

lemma matchAssign_shorter: "matchAssign s = Some r \<Longrightarrow> length r < length s"
proof -
  assume m: "matchAssign s = Some r"
  obtain t where t: "t = dropWhile isSpaceJS s" by simp
  have le: "length t \<le> length s" unfolding t by (rule dropWhile_length_le)
  from m have "(case t of [] \<Rightarrow> None | c # r \<Rightarrow> if c = CHR ''='' then Some r else None) = Some r"
    unfolding matchAssign_def t .
  then have "length r < length t"
    by (cases t) (simp_all split: if_split_asm)
  with le show ?thesis by simp
qed

lemma matchName_shorter: "matchName n s = Some r \<Longrightarrow> length r < length s"
proof -
  assume m: "matchName n s = Some r"
  then have "matchAssign (drop (length n) s) = Some r"
    unfolding matchName_def by (simp split: if_split_asm)
  from matchAssign_shorter [OF this] show ?thesis by simp
qed

lemma matchDecl_shorter: "matchDecl n s = Some r \<Longrightarrow> length r < length s"
proof -
  assume m: "matchDecl n s = Some r"
  then obtain r1 r2 where k: "matchKeyword s = Some r1"
      and sp: "matchSpaces r1 = Some r2" and nm: "matchName n r2 = Some r"
    unfolding matchDecl_def by (simp split: if_split_asm option.split_asm)
  from matchKeyword_shorter [OF k] matchSpaces_shorter [OF sp] matchName_shorter [OF nm]
  show ?thesis by simp
qed

text \<open>
  \<open>statement.replace(varRegex, `globalThis.${varName} =`)\<close> with the global flag: every
  match, left to right, scanning on after each match. \<open>prevWord\<close> says whether the
  character before the current position is a word character (\<open>\b\<close> before a keyword).
\<close>

function replaceDecl :: "string \<Rightarrow> bool \<Rightarrow> string \<Rightarrow> string" where
  "replaceDecl varName prevWord [] = []"
| "replaceDecl varName prevWord (c # cs) =
     (case (if prevWord then None else matchDecl varName (c # cs)) of
        Some rest \<Rightarrow> ''globalThis.'' @ varName @ '' ='' @ replaceDecl varName False rest
      | None \<Rightarrow> c # replaceDecl varName (isWordChar c) cs)"
  by pat_completeness auto
termination
proof (relation "measure (\<lambda>(n, p, s). length s)")
  show "wf (measure (\<lambda>(n, p, s). length s))" by simp
next
  fix varName :: string and prevWord c cs x2
  assume "(if prevWord then None else matchDecl varName (c # cs)) = Some x2"
  then have "matchDecl varName (c # cs) = Some x2" by (simp split: if_split_asm)
  from matchDecl_shorter [OF this]
  show "((varName, False, x2), varName, prevWord, c # cs) \<in> measure (\<lambda>(n, p, s). length s)"
    by simp
next
  fix varName :: string and prevWord c cs
  show "((varName, isWordChar c, cs), varName, prevWord, c # cs) \<in> measure (\<lambda>(n, p, s). length s)"
    by simp
qed

text \<open>
  \<open>/fetch\([^)]+\)/g\<close>: the text \<open>fetch(\<close>, at least one character other than \<open>)\<close>,
  and the first \<open>)\<close>.
\<close>

definition matchFetchCall :: "string \<Rightarrow> string option" where
  "matchFetchCall s =
     (if take 6 s = ''fetch(''
      then (case dropWhile (\<lambda>c. c \<noteq> CHR '')'') (drop 6 s) of
              [] \<Rightarrow> None
            | c # rest \<Rightarrow> if takeWhile (\<lambda>c. c \<noteq> CHR '')'') (drop 6 s) = [] then None else Some rest)
      else None)"

lemma matchFetchCall_shorter: "matchFetchCall s = Some r \<Longrightarrow> length r < length s"
proof -
  assume m: "matchFetchCall s = Some r"
  obtain t where t: "t = dropWhile (\<lambda>c. c \<noteq> CHR '')'') (drop 6 s)" by simp
  have le: "length t \<le> length (drop 6 s)" unfolding t by (rule dropWhile_length_le)
  from m have "(case t of [] \<Rightarrow> None
      | c # rest \<Rightarrow> if takeWhile (\<lambda>c. c \<noteq> CHR '')'') (drop 6 s) = [] then None else Some rest) = Some r"
    unfolding matchFetchCall_def t by (simp split: if_split_asm)
  then have "length r < length t"
    by (cases t) (simp_all split: if_split_asm)
  with le show ?thesis by simp
qed

function replaceFetch :: "string \<Rightarrow> string" where
  "replaceFetch [] = []"
| "replaceFetch (c # cs) =
     (case matchFetchCall (c # cs) of
        Some rest \<Rightarrow> ''globalThis.__currentFetchData'' @ replaceFetch rest
      | None \<Rightarrow> c # replaceFetch cs)"
  by pat_completeness auto
termination
proof (relation "measure length")
  show "wf (measure length)" by simp
next
  fix c :: char and cs x2
  assume "matchFetchCall (c # cs) = Some x2"
  from matchFetchCall_shorter [OF this]
  show "(x2, c # cs) \<in> measure length" by simp
next
  fix c :: char and cs
  show "(cs, c # cs) \<in> measure length" by simp
qed

section \<open>The collaborators: parser and interpreter\<close>

text \<open>
  What \<open>acorn.parse\<close> returns, as far as the driver reads it: for every node of
  \<open>ast.body\<close> its \<open>type\<close> (a variable declaration or not), \<open>start\<close> and \<open>end\<close>, and for a
  declaration the \<open>id\<close> of every declarator (an identifier or another pattern).
\<close>

datatype pattern = Identifier string | OtherPattern

datatype node = VariableDeclaration nat nat "pattern list" | OtherNode nat nat

fun nodeStart :: "node \<Rightarrow> nat" where
  "nodeStart (VariableDeclaration s e ds) = s"
| "nodeStart (OtherNode s e) = s"

fun nodeEnd :: "node \<Rightarrow> nat" where
  "nodeEnd (VariableDeclaration s e ds) = e"
| "nodeEnd (OtherNode s e) = e"

text \<open>
  The state a running script can change: the own properties of the global object of the
  interpreter context (in creation order), the names declared with \<open>var\<close> (properties that
  cannot be deleted), the \<open>fetchCounter\<close> field of the driver, which the fetch callback
  increments while the interpreter runs, and the number of times \<open>Date.now()\<close> was read.
\<close>

record realm =
  globalObj :: "(string \<times> jsval) list"
  varNames :: "string list"
  fetchCounter :: nat
  clockReads :: nat

type_synonym outcome = "(jsval + jsval) \<times> realm"

type_synonym hostfn = "jsval list \<Rightarrow> realm \<Rightarrow> outcome"

text \<open>
  The services the driver consumes. \<open>evalCode\<close> is \<open>vm.evalCode\<close>: given the host function
  installed as \<open>fetch\<close> and a source text, it returns \<open>{error}\<close> (\<open>Inl\<close>) or \<open>{value}\<close>
  (\<open>Inr\<close>) and the new state. \<open>newContext\<close> is the global object of a fresh context,
  \<open>dateNow n\<close> the \<open>n\<close>-th reading of the host clock, \<open>stackLimit\<close> the depth of nested host
  calls after which the interpreter reports a stack overflow.
\<close>

record service =
  acornParse :: "string \<Rightarrow> node list option"
  evalCode :: "hostfn \<Rightarrow> string \<Rightarrow> realm \<Rightarrow> outcome"
  newContext :: "(string \<times> jsval) list"
  dateNow :: "nat \<Rightarrow> nat"
  stackLimit :: nat

definition jsError :: "string \<Rightarrow> string \<Rightarrow> jsval" where
  "jsError name message = JObj [(''name'', JStr name), (''message'', JStr message)]"

fun setProp :: "string \<Rightarrow> jsval \<Rightarrow> (string \<times> jsval) list \<Rightarrow> (string \<times> jsval) list" where
  "setProp k v [] = [(k, v)]"
| "setProp k v (p # ps) = (if fst p = k then (k, v) # ps else p # setProp k v ps)"

definition newline :: string where
  "newline = [CHR 0x0A]"

definition pauseMarker :: string where
  "pauseMarker = ''__FETCH_PAUSE__''"

section \<open>The driver: \<open>SequentialFetchVM\<close>\<close>

subsection \<open>\<open>setupFetch\<close>: the fetch interceptor\<close>

text \<open>
  The callback installed as the global \<open>fetch\<close>. \<open>vm.dump(url)\<close> of a missing first
  argument fails in the binding, and \<open>JSON.stringify(optsObj)\<close> throws on a BigInt: the
  binding turns both into an exception of the script. \<open>options\<close> is a handle whenever the
  script passed a second argument, so \<open>options ? ... : {}\<close> tests the presence of that
  argument. The outcome of storing the descriptor (\<open>storeResult\<close>) is disposed of either
  way. The first argument of \<open>fetchFunc\<close> after the services is the number of nested calls
  still allowed.
\<close>

definition storeCode :: "string \<Rightarrow> string \<Rightarrow> string \<Rightarrow> string" where
  "storeCode requestId urlStr optsText =
     newline @ ''        globalThis.__fetchPause = {'' @
     newline @ ''          id: '' @ [CHR 0x22] @ requestId @ [CHR 0x22] @ '','' @
     newline @ ''          url: '' @ [CHR 0x22] @ urlStr @ [CHR 0x22] @ '','' @
     newline @ ''          options: '' @ optsText @
     newline @ ''        };'' @
     newline @ ''      ''"

primrec fetchFunc :: "service \<Rightarrow> nat \<Rightarrow> hostfn" where
  "fetchFunc K 0 args r = (Inl (jsError ''InternalError'' ''stack overflow''), r)"
| "fetchFunc K (Suc d) args r =
     (case args of
        [] \<Rightarrow> (Inl (jsError ''TypeError'' ''cannot read property of undefined''), r)
      | url # others \<Rightarrow>
          (let urlStr = dump url;
               optsObj = (case others of [] \<Rightarrow> JObj [] | options # _ \<Rightarrow> dump options);
               now = dateNow K (clockReads r);
               r1 = r\<lparr>fetchCounter := fetchCounter r + 1, clockReads := clockReads r + 1\<rparr>;
               requestId = ''fetch_'' @ showNat now @ ''_'' @ showNat (fetchCounter r1)
           in case stringifyTemplate optsObj of
                None \<Rightarrow> (Inl (jsError ''TypeError'' ''Do not know how to serialize a BigInt''), r1)
              | Some optsText \<Rightarrow>
                  (let storeResult =
                         evalCode K (fetchFunc K d) (storeCode requestId (toStringJS urlStr) optsText) r1
                   in (Inr (JStr (pauseMarker @ requestId)), snd storeResult))))"

definition vmEvalCode :: "service \<Rightarrow> string \<Rightarrow> realm \<Rightarrow> outcome" where
  "vmEvalCode K src r = evalCode K (fetchFunc K (stackLimit K)) src r"

subsection \<open>State of the driver and its results\<close>

record engine =
  allCode :: string
  statements :: "string list"
  currentStatementIndex :: nat
  vm :: realm

record VMState =
  state_id :: string
  state_code :: string
  state_variables :: "(string \<times> jsval) list"
  state_timestamp :: nat
  state_currentStatementIndex :: nat
  state_statements :: "string list"

record FetchRequest =
  req_id :: jsval
  req_url :: jsval
  req_options :: jsval
  req_timestamp :: nat

record FetchResponse =
  resp_id :: string
  resp_success :: bool
  resp_status :: int
  resp_statusText :: string
  resp_data :: jsval
  resp_error :: "string option"
  resp_timestamp :: nat

datatype ExecutionResult = Completed jsval | Paused VMState FetchRequest

text \<open>
  What a call can throw: \<open>ScriptError\<close> is \<open>new Error(JSON.stringify(errorMsg, null, 2))\<close>
  with the dumped interpreter error, \<open>FetchDetailsError\<close> is \<open>Failed to get fetch details\<close>,
  \<open>InjectError\<close> is \<open>Failed to inject response\<close>, \<open>HostTypeError\<close> is a \<open>TypeError\<close> of the
  host code itself (reading a property of \<open>undefined\<close>, serialising a BigInt).
\<close>

datatype error =
    ScriptError jsval
  | FetchDetailsError
  | InjectError jsval
  | HostTypeError string

definition initialize :: "service \<Rightarrow> engine" where
  "initialize K =
     \<lparr>allCode = [], statements = [], currentStatementIndex = 0,
      vm = \<lparr>globalObj = setProp ''fetch'' (JNative ''fetch'')
                 (setProp ''console'' (JObj [(''log'', JNative ''log'')]) (newContext K)),
            varNames = [], fetchCounter = 0, clockReads = 0\<rparr>\<rparr>"

subsection \<open>\<open>extractVariableNames\<close>, \<open>parseCodeIntoStatements\<close> and the declaration rewrite\<close>

fun identifierNames :: "pattern list \<Rightarrow> string list" where
  "identifierNames [] = []"
| "identifierNames (Identifier n # ds) = n # identifierNames ds"
| "identifierNames (OtherPattern # ds) = identifierNames ds"

fun declaredNames :: "node \<Rightarrow> string list" where
  "declaredNames (VariableDeclaration s e ds) = identifierNames ds"
| "declaredNames (OtherNode s e) = []"

definition extractVariableNames :: "service \<Rightarrow> string \<Rightarrow> string list" where
  "extractVariableNames K statement =
     (case acornParse K statement of
        None \<Rightarrow> []
      | Some body \<Rightarrow> concat (map declaredNames body))"

definition slice :: "string \<Rightarrow> nat \<Rightarrow> nat \<Rightarrow> string" where
  "slice s a b = take (b - a) (drop a s)"

definition parseCodeIntoStatements :: "service \<Rightarrow> string \<Rightarrow> string list" where
  "parseCodeIntoStatements K src =
     (case acornParse K src of
        None \<Rightarrow> [src]
      | Some body \<Rightarrow> map (\<lambda>n. slice src (nodeStart n) (nodeEnd n)) body)"

text \<open>
  The loop \<open>for (const varName of variableNames) statement = statement.replace(...)\<close> of
  \<open>executeNextStatement\<close> and of \<open>resume\<close>.
\<close>

fun transformDeclarations :: "string list \<Rightarrow> string \<Rightarrow> string" where
  "transformDeclarations [] statement = statement"
| "transformDeclarations (varName # others) statement =
     transformDeclarations others (replaceDecl varName False statement)"

subsection \<open>\<open>getCurrentState\<close> and \<open>restoreState\<close>\<close>

definition denylist :: "string list" where
  "denylist = [''fetch'', ''console'', ''Object'', ''Array'', ''Function'', ''String'', ''Number'',
     ''Boolean'', ''Symbol'', ''Math'', ''Date'', ''JSON'', ''Promise'', ''globalThis'',
     ''undefined'', ''NaN'', ''Infinity'']"

definition startsWithUnderscore :: "string \<Rightarrow> bool" where
  "startsWithUnderscore k = (case k of [] \<Rightarrow> False | c # _ \<Rightarrow> c = CHR ''_'')"

text \<open>
  The function evaluated inside the interpreter by \<open>getCurrentState\<close>: every own property
  name of \<open>globalThis\<close> that does not start with \<open>_\<close> and is not in the list, kept when
  \<open>JSON.stringify\<close> of its value does not throw.
\<close>

definition collectGlobals :: "(string \<times> jsval) list \<Rightarrow> (string \<times> jsval) list" where
  "collectGlobals g =
     filter (\<lambda>kv. \<not> startsWithUnderscore (fst kv) \<and> fst kv \<notin> set denylist
                   \<and> jsonValue (snd kv) \<noteq> JsonThrows) g"

definition dumpedProperties :: "jsval \<Rightarrow> (string \<times> jsval) list" where
  "dumpedProperties v = (case dump v of JObj ps \<Rightarrow> ps | _ \<Rightarrow> [])"

definition getCurrentState :: "service \<Rightarrow> engine \<Rightarrow> VMState \<times> engine" where
  "getCurrentState K e =
     (let variables = dumpedProperties (JObj (collectGlobals (globalObj (vm e))));
          n = clockReads (vm e)
      in (\<lparr>state_id = ''state_'' @ showNat (dateNow K n),
           state_code = allCode e,
           state_variables = variables,
           state_timestamp = dateNow K (n + 1),
           state_currentStatementIndex = currentStatementIndex e,
           state_statements = statements e\<rparr>,
          e\<lparr>vm := (vm e)\<lparr>clockReads := n + 2\<rparr>\<rparr>))"

text \<open>
  \<open>restoreState\<close>: a failure of the interpreter on the restore code is only warned about;
  \<open>JSON.stringify(state.variables)\<close> itself can throw in the host.
\<close>

definition restoreState :: "service \<Rightarrow> VMState \<Rightarrow> engine \<Rightarrow> error + engine" where
  "restoreState K state e =
     (let e1 = e\<lparr>allCode := state_code state,
                  statements := state_statements state,
                  currentStatementIndex := state_currentStatementIndex state\<rparr>
      in if state_variables state = [] then Inr e1
         else (case stringifyTemplate (JObj (state_variables state)) of
                 None \<Rightarrow> Inl (HostTypeError ''JSON.stringify'')
               | Some json \<Rightarrow>
                   (let result = vmEvalCode K (''Object.assign(globalThis, '' @ json @ '')'') (vm e1)
                    in Inr (e1\<lparr>vm := snd result\<rparr>))))"

subsection \<open>\<open>executeNextStatement\<close>, \<open>execute\<close> and \<open>resume\<close>\<close>

definition isPauseMarker :: "jsval \<Rightarrow> bool" where
  "isPauseMarker v = (case v of JStr s \<Rightarrow> take 15 s = pauseMarker | _ \<Rightarrow> False)"

text \<open>The loop over \<open>variableNames\<close> that evaluates each name and looks at its value.\<close>

fun checkVariables :: "service \<Rightarrow> string list \<Rightarrow> realm \<Rightarrow> jsval option \<times> realm" where
  "checkVariables K [] r = (None, r)"
| "checkVariables K (varName # others) r =
     (case vmEvalCode K varName r of
        (Inr checkValue, r1) \<Rightarrow>
          if isPauseMarker (dump checkValue) then (Some (dump checkValue), r1)
          else checkVariables K others r1
      | (Inl checkError, r1) \<Rightarrow> checkVariables K others r1)"

definition findPauseMarker :: "service \<Rightarrow> jsval \<Rightarrow> string \<Rightarrow> realm \<Rightarrow> jsval option \<times> realm" where
  "findPauseMarker K val statement r =
     (if isPauseMarker val then (Some val, r)
      else checkVariables K (extractVariableNames K statement) r)"

text \<open>
  Reading \<open>fetchDetails.id\<close>, \<open>.url\<close>, \<open>.options\<close> of a dumped value: a \<open>TypeError\<close> on
  \<open>undefined\<close> and \<open>null\<close>, the property of an object, \<open>undefined\<close> otherwise.
\<close>

definition readField :: "jsval \<Rightarrow> string \<Rightarrow> jsval option" where
  "readField v k =
     (case v of
        JUndefined \<Rightarrow> None
      | JNull \<Rightarrow> None
      | JObj ps \<Rightarrow> Some (case map_of ps k of Some x \<Rightarrow> x | None \<Rightarrow> JUndefined)
      | _ \<Rightarrow> Some JUndefined)"

text \<open>
  The branch \<open>if (foundPauseMarker)\<close>. The id cut out of the marker (\<open>fetchId\<close>) is not
  used afterwards: the request is the descriptor read from \<open>globalThis.__fetchPause\<close>.
\<close>

definition pauseForFetch :: "service \<Rightarrow> jsval \<Rightarrow> engine \<Rightarrow> (error + ExecutionResult) \<times> engine" where
  "pauseForFetch K foundPauseMarker e =
     (case vmEvalCode K ''globalThis.__fetchPause'' (vm e) of
        (Inl detailsError, r1) \<Rightarrow> (Inl FetchDetailsError, e\<lparr>vm := r1\<rparr>)
      | (Inr detailsValue, r1) \<Rightarrow>
          (let fetchDetails = dump detailsValue
           in case (readField fetchDetails ''id'', readField fetchDetails ''url'',
                    readField fetchDetails ''options'') of
                (Some i, Some u, Some opts) \<Rightarrow>
                  (let fetchRequest = \<lparr>req_id = i, req_url = u, req_options = opts,
                                       req_timestamp = dateNow K (clockReads r1)\<rparr>;
                       r2 = r1\<lparr>clockReads := clockReads r1 + 1\<rparr>;
                       captured = getCurrentState K (e\<lparr>vm := r2\<rparr>)
                   in (Inr (Paused (fst captured) fetchRequest), snd captured))
              | _ \<Rightarrow> (Inl (HostTypeError ''fetchDetails''), e\<lparr>vm := r1\<rparr>)))"

text \<open>
  The statement at the cursor after the declaration rewrite (the text that is evaluated).
\<close>

definition rewrittenStatement :: "service \<Rightarrow> engine \<Rightarrow> string" where
  "rewrittenStatement K e =
     (let original = statements e ! currentStatementIndex e
      in transformDeclarations (extractVariableNames K original) original)"

function executeNextStatement :: "service \<Rightarrow> engine \<Rightarrow> (error + ExecutionResult) \<times> engine" where
  "executeNextStatement K e =
     (if currentStatementIndex e \<ge> length (statements e) then (Inr (Completed JUndefined), e)
      else
        (case vmEvalCode K (rewrittenStatement K e) (vm e) of
           (Inl err, r1) \<Rightarrow> (Inl (ScriptError (dump err)), e\<lparr>vm := r1\<rparr>)
         | (Inr val, r1) \<Rightarrow>
             (case findPauseMarker K (dump val) (rewrittenStatement K e) r1 of
                (Some marker, r2) \<Rightarrow> pauseForFetch K marker (e\<lparr>vm := r2\<rparr>)
              | (None, r2) \<Rightarrow>
                  if currentStatementIndex e + 1 \<ge> length (statements e)
                  then (Inr (Completed (dump val)),
                        e\<lparr>vm := r2, currentStatementIndex := currentStatementIndex e + 1\<rparr>)
                  else executeNextStatement K
                        (e\<lparr>vm := r2, currentStatementIndex := currentStatementIndex e + 1\<rparr>))))"
  by pat_completeness auto
termination
  by (relation "measure (\<lambda>(K, e). length (statements e) - currentStatementIndex e)") auto

declare executeNextStatement.simps [simp del]

text \<open>The first three lines of \<open>execute\<close>: append, segment, reset the cursor.\<close>

definition beginRun :: "service \<Rightarrow> string \<Rightarrow> engine \<Rightarrow> engine" where
  "beginRun K src e =
     e\<lparr>allCode := allCode e @ newline @ src,
       statements := parseCodeIntoStatements K src,
       currentStatementIndex := 0\<rparr>"

definition execute :: "service \<Rightarrow> string \<Rightarrow> engine \<Rightarrow> (error + ExecutionResult) \<times> engine" where
  "execute K src e = executeNextStatement K (beginRun K src e)"

definition injectCode :: "string \<Rightarrow> string" where
  "injectCode dataText =
     newline @ ''      globalThis.__currentFetchData = '' @ dataText @ '';'' @ newline @ ''    ''"

definition clearCode :: string where
  "clearCode = ''delete globalThis.__currentFetchData; delete globalThis.__fetchPause;''"

text \<open>
  \<open>resume\<close> up to and including the clearing of the two reserved slots: restore, inject,
  rewrite the statement at the cursor, evaluate it, advance the cursor. The value is that
  of the replayed statement. Reading \<open>this.statements[i]\<close> beyond the end gives
  \<open>undefined\<close>, and \<open>undefined.replace\<close> throws.
\<close>

definition transformedStatement :: "service \<Rightarrow> engine \<Rightarrow> string" where
  "transformedStatement K e =
     (let currentStatement = statements e ! currentStatementIndex e
      in transformDeclarations (extractVariableNames K currentStatement)
           (replaceFetch currentStatement))"

definition resumeReplay :: "service \<Rightarrow> VMState \<Rightarrow> FetchResponse \<Rightarrow> engine \<Rightarrow> (error + jsval) \<times> engine" where
  "resumeReplay K state fetchResponse e =
     (case restoreState K state e of
        Inl err \<Rightarrow> (Inl err, e)
      | Inr e1 \<Rightarrow>
          (case stringifyTemplate (resp_data fetchResponse) of
             None \<Rightarrow> (Inl (HostTypeError ''JSON.stringify''), e1)
           | Some dataText \<Rightarrow>
               (case vmEvalCode K (injectCode dataText) (vm e1) of
                  (Inl injectError, r1) \<Rightarrow> (Inl (InjectError (dump injectError)), e1\<lparr>vm := r1\<rparr>)
                | (Inr injected, r1) \<Rightarrow>
                    if currentStatementIndex e1 \<ge> length (statements e1)
                    then (Inl (HostTypeError ''currentStatement''), e1\<lparr>vm := r1\<rparr>)
                    else
                      (case vmEvalCode K (transformedStatement K e1) r1 of
                            (Inl err, r2) \<Rightarrow> (Inl (ScriptError (dump err)), e1\<lparr>vm := r2\<rparr>)
                          | (Inr val, r2) \<Rightarrow>
                              (let cleared = vmEvalCode K clearCode r2
                               in (Inr (dump val),
                                   e1\<lparr>vm := snd cleared,
                                      currentStatementIndex := currentStatementIndex e1 + 1\<rparr>))))))"

definition resume :: "service \<Rightarrow> VMState \<Rightarrow> FetchResponse \<Rightarrow> engine \<Rightarrow> (error + ExecutionResult) \<times> engine" where
  "resume K state fetchResponse e =
     (case resumeReplay K state fetchResponse e of
        (Inl err, e1) \<Rightarrow> (Inl err, e1)
      | (Inr val, e1) \<Rightarrow>
          if currentStatementIndex e1 < length (statements e1) then executeNextStatement K e1
          else (Inr (Completed val), e1))"

text \<open>The convenience functions: a fresh driver for every call.\<close>

definition executeCode :: "service \<Rightarrow> string \<Rightarrow> error + ExecutionResult" where
  "executeCode K src = fst (execute K src (initialize K))"

definition resumeExecution :: "service \<Rightarrow> VMState \<Rightarrow> FetchResponse \<Rightarrow> error + ExecutionResult" where
  "resumeExecution K state fetchResponse = fst (resume K state fetchResponse (initialize K))"

section \<open>A reference parser and interpreter for a fragment of the script language\<close>

text \<open>
  The two libraries are not part of the repository. For the closed scenarios below they
  are instantiated by a small parser and interpreter of a fragment of JavaScript:
  expression statements and \<open>var\<close> declarations over literals (numbers, BigInts, strings
  in either quote, \<open>true\<close>, \<open>false\<close>, \<open>null\<close>), identifiers, property reads, calls, object
  and array literals, assignment to a global, \<open>delete\<close> of a global, unary minus and the
  comma operator. A property of an object literal is named by an identifier, by a string, or
  by a string in brackets (a computed name). Everything else is refused: source text outside
  the fragment does not parse, and an operation outside it raises the error \<open>Unsupported\<close>,
  so that no script is given a meaning the language does not give it.
\<close>

datatype propkey = Plain string | Computed string

fun keyName :: "propkey \<Rightarrow> string" where
  "keyName (Plain k) = k"
| "keyName (Computed k) = k"

datatype expr =
    ELit jsval
  | EIdent string
  | EMember expr string
  | ECall expr "expr list"
  | EObject "(propkey \<times> expr) list"
  | EArray "expr list"
  | EAssign expr expr
  | EDelete expr
  | ENeg expr
  | ESeq expr expr

datatype declKind = KConst | KLet | KVar

datatype stmt = SExpr expr | SDecl declKind "(string \<times> expr option) list"

subsection \<open>Lexical level\<close>

definition isDigit :: "char \<Rightarrow> bool" where
  "isDigit c = (let n = (of_char c :: nat) in 48 \<le> n \<and> n \<le> 57)"

definition isIdStart :: "char \<Rightarrow> bool" where
  "isIdStart c =
     (let n = (of_char c :: nat)
      in (65 \<le> n \<and> n \<le> 90) \<or> (97 \<le> n \<and> n \<le> 122) \<or> n = 95 \<or> n = 36)"



definition isIdChar :: "char \<Rightarrow> bool" where
  "isIdChar c = (isIdStart c \<or> isDigit c)"

definition skipWs :: "string \<Rightarrow> string" where
  "skipWs s = dropWhile isSpaceJS s"

definition reservedWords :: "string list" where
  "reservedWords = [''break'', ''case'', ''catch'', ''class'', ''const'', ''continue'',
     ''debugger'', ''default'', ''delete'', ''do'', ''else'', ''enum'', ''export'', ''extends'',
     ''finally'', ''for'', ''function'', ''if'', ''import'', ''in'', ''instanceof'', ''new'',
     ''return'', ''super'', ''switch'', ''this'', ''throw'', ''try'', ''typeof'', ''var'', ''void'',
     ''while'', ''with'', ''yield'', ''let'', ''static'', ''await'', ''implements'', ''package'',
     ''protected'', ''interface'', ''private'', ''public'', ''async'', ''of'', ''get'', ''set'']"

definition digitValue :: "char \<Rightarrow> int" where
  "digitValue c = (of_char c :: int) - 48"

definition hexValue :: "char \<Rightarrow> nat option" where
  "hexValue c =
     (let n = (of_char c :: nat)
      in if 48 \<le> n \<and> n \<le> 57 then Some (n - 48)
         else if 97 \<le> n \<and> n \<le> 102 then Some (n - 87)
         else if 65 \<le> n \<and> n \<le> 70 then Some (n - 55)
         else None)"

definition hex4 :: "string \<Rightarrow> char option" where
  "hex4 s =
     (case map hexValue s of
        [Some a, Some b, Some c, Some d] \<Rightarrow>
          (if a = 0 \<and> b = 0 then Some (char_of (16 * c + d)) else None)
      | _ \<Rightarrow> None)"

definition simpleEscape :: "char \<Rightarrow> char option" where
  "simpleEscape e =
     (if e = CHR ''n'' then Some (CHR 0x0A)
      else if e = CHR ''t'' then Some (CHR 0x09)
      else if e = CHR ''r'' then Some (CHR 0x0D)
      else if e = CHR ''b'' then Some (CHR 0x08)
      else if e = CHR ''f'' then Some (CHR 0x0C)
      else if e = CHR ''v'' then Some (CHR 0x0B)
      else if isDigit e \<or> e = CHR ''x'' \<or> e = CHR ''u'' \<or> e = CHR 0x0A \<or> e = CHR 0x0D then None
      else Some e)"

definition consChar :: "char \<Rightarrow> (string \<times> string) option \<Rightarrow> (string \<times> string) option" where
  "consChar c r = (case r of None \<Rightarrow> None | Some p \<Rightarrow> Some (c # fst p, snd p))"

text \<open>
  The body of a string literal up to the closing quote \<open>q\<close>: the characters denoted and
  the text after the quote. A line break inside a literal and an escape outside the
  supported ones end the parse.
\<close>

fun lexString :: "char \<Rightarrow> string \<Rightarrow> (string \<times> string) option" where
  "lexString q [] = None"
| "lexString q (c # cs) =
     (if c = q then Some ([], cs)
      else if isControl c \<and> (c = CHR 0x0A \<or> c = CHR 0x0D) then None
      else if c = CHR 0x5C then
        (case cs of
           [] \<Rightarrow> None
         | e # cs' \<Rightarrow>
             if e = CHR ''u'' then
               (case hex4 (take 4 cs') of
                  None \<Rightarrow> None
                | Some ch \<Rightarrow> consChar ch (lexString q (drop 4 cs')))
             else (case simpleEscape e of
                     None \<Rightarrow> None
                   | Some ch \<Rightarrow> consChar ch (lexString q cs')))
      else consChar c (lexString q cs))"

definition lexNumber :: "string \<Rightarrow> (expr \<times> string) option" where
  "lexNumber s =
     (let ds = takeWhile isDigit s;
          rest = dropWhile isDigit s;
          n = foldl (\<lambda>a c. 10 * a + digitValue c) 0 ds
      in if length ds > 1 \<and> take 1 ds = ''0'' then None
         else (case rest of
                 [] \<Rightarrow> (if n \<le> 9007199254740991 then Some (ELit (JNum n), rest) else None)
               | c # rest' \<Rightarrow>
                   if c = CHR ''n'' then
                     (case rest' of
                        [] \<Rightarrow> Some (ELit (JBigInt n), rest')
                      | c2 # _ \<Rightarrow>
                          if isIdChar c2 \<or> c2 = CHR ''.'' then None
                          else Some (ELit (JBigInt n), rest'))
                   else if isIdChar c \<or> c = CHR ''.'' then None
                   else if n \<le> 9007199254740991 then Some (ELit (JNum n), rest)
                   else None))"

subsection \<open>Expressions\<close>

definition isAssignable :: "expr \<Rightarrow> bool" where
  "isAssignable e = (case e of EIdent x \<Rightarrow> True | EMember b p \<Rightarrow> True | _ \<Rightarrow> False)"

text \<open>
  Recursive descent on the text. Every function returns the tree and the text right
  after its last token (white space after it is not consumed). The functions \<open>...With\<close>
  take the parser of a nested assignment expression as \<open>sub\<close>; the list after it
  bounds the iterations of a loop (items of a list, links of a chain) by its length, and
  is always at least as long as the text left. \<open>parseAssignN\<close> ties the knot, its
  argument bounding the nesting depth in the same way.
\<close>

type_synonym 'a parser = "string \<Rightarrow> ('a \<times> string) option"

primrec parseListWith :: "expr parser \<Rightarrow> string \<Rightarrow> char \<Rightarrow> (expr list) parser" where
  "parseListWith sub [] close s = None"
| "parseListWith sub (f # k) close s =
     (case sub s of
        None \<Rightarrow> None
      | Some p \<Rightarrow>
          (case skipWs (snd p) of
             [] \<Rightarrow> None
           | c # cs \<Rightarrow>
               if c = CHR '','' then
                 (case parseListWith sub k close (skipWs cs) of
                    None \<Rightarrow> None
                  | Some q \<Rightarrow> Some (fst p # fst q, snd q))
               else if c = close then Some ([fst p], cs)
               else None))"

definition parseComputedKey :: "propkey parser" where
  "parseComputedKey s =
     (case s of
        [] \<Rightarrow> None
      | c # cs \<Rightarrow>
          if c = CHR 0x22 \<or> c = CHR 0x27 then
            (case lexString c cs of
               None \<Rightarrow> None
             | Some p \<Rightarrow>
                 (case skipWs (snd p) of
                    [] \<Rightarrow> None
                  | c2 # cs2 \<Rightarrow> if c2 = CHR '']'' then Some (Computed (fst p), cs2) else None))
          else None)"

definition parseKey :: "propkey parser" where
  "parseKey s =
     (case s of
        [] \<Rightarrow> None
      | c # cs \<Rightarrow>
          if c = CHR 0x22 \<or> c = CHR 0x27 then
            (case lexString c cs of None \<Rightarrow> None | Some p \<Rightarrow> Some (Plain (fst p), snd p))
          else if isIdStart c then Some (Plain (takeWhile isIdChar s), dropWhile isIdChar s)
          else if c = CHR ''['' then parseComputedKey (skipWs cs)
          else None)"

primrec parsePropsWith :: "expr parser \<Rightarrow> string \<Rightarrow> ((propkey \<times> expr) list) parser" where
  "parsePropsWith sub [] s = None"
| "parsePropsWith sub (f # k) s =
     (case parseKey s of
        None \<Rightarrow> None
      | Some key \<Rightarrow>
          (case skipWs (snd key) of
             [] \<Rightarrow> None
           | c # cs \<Rightarrow>
               if c \<noteq> CHR '':'' then None
               else (case sub (skipWs cs) of
                       None \<Rightarrow> None
                     | Some p \<Rightarrow>
                         (case skipWs (snd p) of
                            [] \<Rightarrow> None
                          | c2 # cs2 \<Rightarrow>
                              if c2 = CHR '','' then
                                (case parsePropsWith sub k (skipWs cs2) of
                                   None \<Rightarrow> None
                                 | Some q \<Rightarrow> Some ((fst key, fst p) # fst q, snd q))
                              else if c2 = CHR ''}'' then Some ([(fst key, fst p)], cs2)
                              else None))))"

primrec parseSeqWith :: "expr parser \<Rightarrow> string \<Rightarrow> expr parser" where
  "parseSeqWith sub [] s = None"
| "parseSeqWith sub (f # k) s =
     (case sub s of
        None \<Rightarrow> None
      | Some p \<Rightarrow>
          (case skipWs (snd p) of
             [] \<Rightarrow> Some p
           | c # cs \<Rightarrow>
               if c = CHR '','' then
                 (case parseSeqWith sub k (skipWs cs) of
                    None \<Rightarrow> None
                  | Some q \<Rightarrow> Some (ESeq (fst p) (fst q), snd q))
               else Some p))"

definition parseWord :: "string \<Rightarrow> (expr \<times> string) option" where
  "parseWord s =
     (let name = takeWhile isIdChar s; rest = dropWhile isIdChar s
      in if name = ''true'' then Some (ELit (JBool True), rest)
         else if name = ''false'' then Some (ELit (JBool False), rest)
         else if name = ''null'' then Some (ELit JNull, rest)
         else if name \<in> set reservedWords then None
         else Some (EIdent name, rest))"

definition parsePrimaryWith :: "expr parser \<Rightarrow> expr parser" where
  "parsePrimaryWith sub s =
     (case s of
        [] \<Rightarrow> None
      | c # cs \<Rightarrow>
          if c = CHR 0x22 \<or> c = CHR 0x27 then
            (case lexString c cs of None \<Rightarrow> None | Some p \<Rightarrow> Some (ELit (JStr (fst p)), snd p))
          else if isDigit c then lexNumber s
          else if isIdStart c then parseWord s
          else if c = CHR ''{'' then
            (case skipWs cs of
               [] \<Rightarrow> None
             | c2 # cs2 \<Rightarrow>
                 if c2 = CHR ''}'' then Some (EObject [], cs2)
                 else (case parsePropsWith sub cs (c2 # cs2) of
                         None \<Rightarrow> None
                       | Some p \<Rightarrow> Some (EObject (fst p), snd p)))
          else if c = CHR ''['' then
            (case skipWs cs of
               [] \<Rightarrow> None
             | c2 # cs2 \<Rightarrow>
                 if c2 = CHR '']'' then Some (EArray [], cs2)
                 else (case parseListWith sub cs (CHR '']'') (c2 # cs2) of
                         None \<Rightarrow> None
                       | Some p \<Rightarrow> Some (EArray (fst p), snd p)))
          else if c = CHR ''('' then
            (case parseSeqWith sub cs (skipWs cs) of
               None \<Rightarrow> None
             | Some p \<Rightarrow>
                 (case skipWs (snd p) of
                    [] \<Rightarrow> None
                  | c2 # cs2 \<Rightarrow> if c2 = CHR '')'' then Some (fst p, cs2) else None))
          else None)"

primrec parsePostfixWith :: "expr parser \<Rightarrow> string \<Rightarrow> expr \<Rightarrow> expr parser" where
  "parsePostfixWith sub [] e s = None"
| "parsePostfixWith sub (f # k) e s =
     (case skipWs s of
        [] \<Rightarrow> Some (e, s)
      | c # cs \<Rightarrow>
          if c = CHR ''.'' then
            (let s1 = skipWs cs; name = takeWhile isIdChar s1
             in if name = [] \<or> isDigit (hd name) then None
                else parsePostfixWith sub k (EMember e name) (dropWhile isIdChar s1))
          else if c = CHR ''('' then
            (case skipWs cs of
               [] \<Rightarrow> None
             | c2 # cs2 \<Rightarrow>
                 if c2 = CHR '')'' then parsePostfixWith sub k (ECall e []) cs2
                 else (case parseListWith sub cs (CHR '')'') (c2 # cs2) of
                         None \<Rightarrow> None
                       | Some p \<Rightarrow> parsePostfixWith sub k (ECall e (fst p)) (snd p)))
          else Some (e, s))"

primrec parseUnaryWith :: "expr parser \<Rightarrow> string \<Rightarrow> expr parser" where
  "parseUnaryWith sub [] s = None"
| "parseUnaryWith sub (f # k) s =
     (if takeWhile isIdChar s = ''delete'' then
        (case parseUnaryWith sub k (skipWs (dropWhile isIdChar s)) of
           None \<Rightarrow> None
         | Some p \<Rightarrow> Some (EDelete (fst p), snd p))
      else if take 1 s = ''-'' then
        (if take 2 s = ''--'' then None
         else (case parseUnaryWith sub k (skipWs (drop 1 s)) of
                 None \<Rightarrow> None
               | Some p \<Rightarrow> Some (ENeg (fst p), snd p)))
      else (case parsePrimaryWith sub s of
              None \<Rightarrow> None
            | Some p \<Rightarrow> parsePostfixWith sub (CHR ''.'' # s) (fst p) (snd p)))"

definition parseAssignWith :: "expr parser \<Rightarrow> expr parser" where
  "parseAssignWith sub s =
     (case parseUnaryWith sub (CHR ''.'' # s) s of
        None \<Rightarrow> None
      | Some p \<Rightarrow>
          (case skipWs (snd p) of
             [] \<Rightarrow> Some p
           | c # cs \<Rightarrow>
               if c = CHR ''='' then
                 (if take 1 cs = ''='' \<or> take 1 cs = ''>'' \<or> \<not> isAssignable (fst p) then None
                  else (case sub (skipWs cs) of
                          None \<Rightarrow> None
                        | Some q \<Rightarrow> Some (EAssign (fst p) (fst q), snd q)))
               else Some p))"

primrec parseAssignN :: "string \<Rightarrow> expr parser" where
  "parseAssignN [] s = None"
| "parseAssignN (f # n) s = parseAssignWith (parseAssignN n) s"

definition parseAssign :: "expr parser" where
  "parseAssign s = parseAssignN (CHR ''.'' # s) s"

definition parseExpr :: "expr parser" where
  "parseExpr s = parseSeqWith parseAssign (CHR ''.'' # s) s"

subsection \<open>Statements and programs\<close>

definition declKindOf :: "string \<Rightarrow> declKind option" where
  "declKindOf w =
     (if w = ''var'' then Some KVar else if w = ''let'' then Some KLet
      else if w = ''const'' then Some KConst else None)"

definition isBindingName :: "string \<Rightarrow> bool" where
  "isBindingName name =
     (name \<noteq> [] \<and> \<not> isDigit (hd name) \<and> name \<notin> set reservedWords
      \<and> name \<notin> set [''true'', ''false'', ''null''])"

primrec parseDeclarators :: "string \<Rightarrow> ((string \<times> expr option) list) parser" where
  "parseDeclarators [] s = None"
| "parseDeclarators (f # k) s =
     (let name = takeWhile isIdChar s; rest = dropWhile isIdChar s
      in if \<not> isBindingName name then None
         else (case (case skipWs rest of
                       [] \<Rightarrow> Some ((name, None), rest)
                     | c # cs \<Rightarrow>
                         if c = CHR ''='' then
                           (if take 1 cs = ''='' then None
                            else (case parseAssign (skipWs cs) of
                                    None \<Rightarrow> None
                                  | Some p \<Rightarrow> Some ((name, Some (fst p)), snd p)))
                         else Some ((name, None), rest)) of
                 None \<Rightarrow> None
               | Some d \<Rightarrow>
                   (case skipWs (snd d) of
                      [] \<Rightarrow> Some ([fst d], snd d)
                    | c # cs \<Rightarrow>
                        if c = CHR '','' then
                          (case parseDeclarators k (skipWs cs) of
                             None \<Rightarrow> None
                           | Some q \<Rightarrow> Some (fst d # fst q, snd q))
                        else Some ([fst d], snd d))))"

definition parseStatement :: "stmt parser" where
  "parseStatement s =
     (case declKindOf (takeWhile isIdChar s) of
        Some kind \<Rightarrow>
          (case parseDeclarators s (skipWs (dropWhile isIdChar s)) of
             None \<Rightarrow> None
           | Some p \<Rightarrow>
               if kind = KConst \<and> None \<in> set (map snd (fst p)) then None
               else Some (SDecl kind (fst p), snd p))
      | None \<Rightarrow>
          if take 1 s = ''{'' then None
          else (case parseExpr s of
                  None \<Rightarrow> None
                | Some p \<Rightarrow> Some (SExpr (fst p), snd p)))"

definition consOpt :: "'a \<Rightarrow> 'a list option \<Rightarrow> 'a list option" where
  "consOpt x r = (case r of None \<Rightarrow> None | Some xs \<Rightarrow> Some (x # xs))"

text \<open>
  The statements of a script with their offsets \<open>start\<close> and \<open>end\<close> in \<open>src\<close>. A statement
  ends after its semicolon, at the end of the text, or (automatic semicolon insertion)
  before a line break that is followed by the start of a name, a number or a string.
\<close>

primrec parseStatements :: "string \<Rightarrow> string \<Rightarrow> string \<Rightarrow> (stmt \<times> nat \<times> nat) list option" where
  "parseStatements [] src s = None"
| "parseStatements (f # k) src s =
     (let s1 = skipWs s
      in if s1 = [] then Some []
         else (case parseStatement s1 of
                 None \<Rightarrow> None
               | Some p \<Rightarrow>
                   (let start = length src - length s1;
                        s2 = snd p;
                        ws = takeWhile isSpaceJS s2
                    in case skipWs s2 of
                         [] \<Rightarrow> Some [(fst p, start, length src - length s2)]
                       | c # s4 \<Rightarrow>
                           if c = CHR '';'' then
                             consOpt (fst p, start, length src - length s4) (parseStatements k src s4)
                           else if (CHR 0x0A \<in> set ws \<or> CHR 0x0D \<in> set ws)
                                   \<and> (isIdStart c \<or> isDigit c \<or> c = CHR 0x22 \<or> c = CHR 0x27) then
                             consOpt (fst p, start, length src - length s2)
                               (parseStatements k src (c # s4))
                           else None)))"

definition parseProgram :: "string \<Rightarrow> (stmt \<times> nat \<times> nat) list option" where
  "parseProgram src = parseStatements (CHR ''.'' # src) src src"

fun toNode :: "stmt \<times> nat \<times> nat \<Rightarrow> node" where
  "toNode (SDecl kind ds, a, b) = VariableDeclaration a b (map (\<lambda>d. Identifier (fst d)) ds)"
| "toNode (SExpr e, a, b) = OtherNode a b"

definition miniParse :: "string \<Rightarrow> node list option" where
  "miniParse src = map_option (map toNode) (parseProgram src)"

subsection \<open>Evaluation\<close>

definition unsupported :: jsval where
  "unsupported = jsError ''Unsupported'' ''outside the modelled fragment''"

definition readonlyGlobals :: "string list" where
  "readonlyGlobals = [''undefined'', ''NaN'', ''Infinity'']"

definition protoNames :: "string list" where
  "protoNames = [''constructor'', ''toString'', ''toLocaleString'', ''valueOf'', ''hasOwnProperty'',
     ''isPrototypeOf'', ''propertyIsEnumerable'', ''__proto__'', ''__defineGetter__'',
     ''__defineSetter__'', ''__lookupGetter__'', ''__lookupSetter__'']"

definition lookupIdent :: "string \<Rightarrow> realm \<Rightarrow> jsval + jsval" where
  "lookupIdent x r =
     (case map_of (globalObj r) x of
        Some v \<Rightarrow> Inr v
      | None \<Rightarrow> if x \<in> set protoNames then Inl unsupported
                else Inl (jsError ''ReferenceError'' (x @ '' is not defined'')))"

definition ownProperty :: "(string \<times> jsval) list \<Rightarrow> string \<Rightarrow> jsval + jsval" where
  "ownProperty ps p =
     (case map_of ps p of
        Some v \<Rightarrow> Inr v
      | None \<Rightarrow> if p \<in> set protoNames then Inl unsupported else Inr JUndefined)"

definition memberOf :: "jsval \<Rightarrow> string \<Rightarrow> realm \<Rightarrow> jsval + jsval" where
  "memberOf v p r =
     (case v of
        JGlobal \<Rightarrow> ownProperty (globalObj r) p
      | JObj ps \<Rightarrow> ownProperty ps p
      | JUndefined \<Rightarrow> Inl (jsError ''TypeError'' ''cannot read property of undefined'')
      | JNull \<Rightarrow> Inl (jsError ''TypeError'' ''cannot read property of null'')
      | JNative n \<Rightarrow> if n = ''Object'' \<and> p = ''assign'' then Inr (JNative ''Object.assign'')
                      else Inl unsupported
      | _ \<Rightarrow> Inl unsupported)"

definition putGlobal :: "string \<Rightarrow> jsval \<Rightarrow> realm \<Rightarrow> realm" where
  "putGlobal x v r =
     (if x \<in> set readonlyGlobals then r else r\<lparr>globalObj := setProp x v (globalObj r)\<rparr>)"

definition assignGlobal :: "string \<Rightarrow> jsval \<Rightarrow> realm \<Rightarrow> outcome" where
  "assignGlobal x v r = (if x = ''__proto__'' then (Inl unsupported, r) else (Inr v, putGlobal x v r))"

definition deleteGlobal :: "string \<Rightarrow> realm \<Rightarrow> outcome" where
  "deleteGlobal p r =
     (if p \<in> set (varNames r) \<or> p \<in> set readonlyGlobals then (Inr (JBool False), r)
      else (Inr (JBool True), r\<lparr>globalObj := filter (\<lambda>kv. fst kv \<noteq> p) (globalObj r)\<rparr>))"

definition objectAssign :: "jsval list \<Rightarrow> realm \<Rightarrow> outcome" where
  "objectAssign vs r =
     (case vs of
        [JGlobal, JObj ps] \<Rightarrow>
          if filter (\<lambda>kv. fst kv \<in> set (''__proto__'' # readonlyGlobals)) ps \<noteq> [] then (Inl unsupported, r)
          else (Inr JGlobal, r\<lparr>globalObj := foldl (\<lambda>g kv. setProp (fst kv) (snd kv) g) (globalObj r) ps\<rparr>)
      | _ \<Rightarrow> (Inl unsupported, r))"

definition applyCall :: "hostfn \<Rightarrow> jsval \<Rightarrow> jsval list \<Rightarrow> realm \<Rightarrow> outcome" where
  "applyCall h fv vs r =
     (case fv of
        JNative n \<Rightarrow>
          if n = ''fetch'' then h vs r
          else if n = ''log'' then (Inr JUndefined, r)
          else if n = ''Object.assign'' then objectAssign vs r
          else (Inl unsupported, r)
      | _ \<Rightarrow> (Inl (jsError ''TypeError'' ''not a function''), r))"

text \<open>
  An object literal. The property name \<open>__proto__\<close>, when it is not computed, does not
  create a property: with a primitive value it does nothing, with an object or \<open>null\<close> it
  sets the prototype (outside the fragment, as is a literal that names it twice). A computed
  name always creates a property.
\<close>

definition isPrimitive :: "jsval \<Rightarrow> bool" where
  "isPrimitive v =
     (case v of JUndefined \<Rightarrow> True | JBool b \<Rightarrow> True | JNum n \<Rightarrow> True
      | JBigInt n \<Rightarrow> True | JStr s \<Rightarrow> True | _ \<Rightarrow> False)"

definition buildObject :: "(propkey \<times> jsval) list \<Rightarrow> jsval + jsval" where
  "buildObject kvs =
     (let protos = filter (\<lambda>kv. fst kv = Plain ''__proto__'') kvs
      in if length protos > 1 \<or> filter (\<lambda>kv. \<not> isPrimitive (snd kv)) protos \<noteq> [] then Inl unsupported
         else Inr (JObj (foldl (\<lambda>g kv. setProp (keyName (fst kv)) (snd kv) g) []
                          (filter (\<lambda>kv. fst kv \<noteq> Plain ''__proto__'') kvs))))"

definition negate :: "jsval \<Rightarrow> jsval + jsval" where
  "negate v = (case v of JNum n \<Rightarrow> Inr (JNum (- n)) | JBigInt n \<Rightarrow> Inr (JBigInt (- n)) | _ \<Rightarrow> Inl unsupported)"

fun evalExpr :: "hostfn \<Rightarrow> expr \<Rightarrow> realm \<Rightarrow> outcome"
  and evalList :: "hostfn \<Rightarrow> expr list \<Rightarrow> realm \<Rightarrow> (jsval + jsval list) \<times> realm"
  and evalProps :: "hostfn \<Rightarrow> (propkey \<times> expr) list \<Rightarrow> realm \<Rightarrow> (jsval + (propkey \<times> jsval) list) \<times> realm" where
  "evalExpr h (ELit v) r = (Inr v, r)"
| "evalExpr h (EIdent x) r = (lookupIdent x r, r)"
| "evalExpr h (EMember b p) r =
     (case evalExpr h b r of
        (Inl e, r1) \<Rightarrow> (Inl e, r1)
      | (Inr v, r1) \<Rightarrow> (memberOf v p r1, r1))"
| "evalExpr h (ECall f args) r =
     (case evalExpr h f r of
        (Inl e, r1) \<Rightarrow> (Inl e, r1)
      | (Inr fv, r1) \<Rightarrow>
          (case evalList h args r1 of
             (Inl e, r2) \<Rightarrow> (Inl e, r2)
           | (Inr vs, r2) \<Rightarrow> applyCall h fv vs r2))"
| "evalExpr h (EObject ps) r =
     (case evalProps h ps r of
        (Inl e, r1) \<Rightarrow> (Inl e, r1)
      | (Inr kvs, r1) \<Rightarrow> (buildObject kvs, r1))"
| "evalExpr h (EArray es) r =
     (case evalList h es r of
        (Inl e, r1) \<Rightarrow> (Inl e, r1)
      | (Inr vs, r1) \<Rightarrow> (Inr (JArr vs), r1))"
| "evalExpr h (EAssign (EIdent x) rhs) r =
     (case evalExpr h rhs r of
        (Inl e, r1) \<Rightarrow> (Inl e, r1)
      | (Inr v, r1) \<Rightarrow> assignGlobal x v r1)"
| "evalExpr h (EAssign (EMember b p) rhs) r =
     (case evalExpr h b r of
        (Inl e, r1) \<Rightarrow> (Inl e, r1)
      | (Inr bv, r1) \<Rightarrow>
          if bv \<noteq> JGlobal then (Inl unsupported, r1)
          else (case evalExpr h rhs r1 of
                  (Inl e, r2) \<Rightarrow> (Inl e, r2)
                | (Inr v, r2) \<Rightarrow> assignGlobal p v r2))"
| "evalExpr h (EAssign lhs rhs) r = (Inl unsupported, r)"
| "evalExpr h (EDelete (EMember b p)) r =
     (case evalExpr h b r of
        (Inl e, r1) \<Rightarrow> (Inl e, r1)
      | (Inr bv, r1) \<Rightarrow> if bv = JGlobal then deleteGlobal p r1 else (Inl unsupported, r1))"
| "evalExpr h (EDelete e) r = (Inl unsupported, r)"
| "evalExpr h (ENeg e) r =
     (case evalExpr h e r of
        (Inl er, r1) \<Rightarrow> (Inl er, r1)
      | (Inr v, r1) \<Rightarrow> (negate v, r1))"
| "evalExpr h (ESeq a b) r =
     (case evalExpr h a r of
        (Inl e, r1) \<Rightarrow> (Inl e, r1)
      | (Inr v, r1) \<Rightarrow> evalExpr h b r1)"
| "evalList h [] r = (Inr [], r)"
| "evalList h (e # es) r =
     (case evalExpr h e r of
        (Inl er, r1) \<Rightarrow> (Inl er, r1)
      | (Inr v, r1) \<Rightarrow>
          (case evalList h es r1 of
             (Inl er, r2) \<Rightarrow> (Inl er, r2)
           | (Inr vs, r2) \<Rightarrow> (Inr (v # vs), r2)))"
| "evalProps h [] r = (Inr [], r)"
| "evalProps h (kv # ps) r =
     (case evalExpr h (snd kv) r of
        (Inl er, r1) \<Rightarrow> (Inl er, r1)
      | (Inr v, r1) \<Rightarrow>
          (case evalProps h ps r1 of
             (Inl er, r2) \<Rightarrow> (Inl er, r2)
           | (Inr kvs, r2) \<Rightarrow> (Inr ((fst kv, v) # kvs), r2)))"

text \<open>
  A script: \<open>var\<close> names are created first (hoisting), then the statements run in order;
  the value of the script is that of its last expression statement. Scripts that still
  declare with \<open>let\<close> or \<open>const\<close> are outside the fragment.
\<close>

fun varNamesOf :: "stmt list \<Rightarrow> string list" where
  "varNamesOf [] = []"
| "varNamesOf (SDecl kind ds # ss) = map fst ds @ varNamesOf ss"
| "varNamesOf (SExpr e # ss) = varNamesOf ss"

fun hoist :: "string list \<Rightarrow> realm \<Rightarrow> realm" where
  "hoist [] r = r"
| "hoist (x # xs) r =
     hoist xs (if x \<in> set (map fst (globalObj r)) then r
               else r\<lparr>globalObj := globalObj r @ [(x, JUndefined)], varNames := x # varNames r\<rparr>)"

fun runDecls :: "hostfn \<Rightarrow> (string \<times> expr option) list \<Rightarrow> realm \<Rightarrow> outcome" where
  "runDecls h [] r = (Inr JUndefined, r)"
| "runDecls h ((x, None) # ds) r = runDecls h ds r"
| "runDecls h ((x, Some e) # ds) r =
     (case evalExpr h e r of
        (Inl er, r1) \<Rightarrow> (Inl er, r1)
      | (Inr v, r1) \<Rightarrow> runDecls h ds (putGlobal x v r1))"

fun runStmts :: "hostfn \<Rightarrow> stmt list \<Rightarrow> jsval \<Rightarrow> realm \<Rightarrow> outcome" where
  "runStmts h [] completion r = (Inr completion, r)"
| "runStmts h (SExpr e # ss) completion r =
     (case evalExpr h e r of
        (Inl er, r1) \<Rightarrow> (Inl er, r1)
      | (Inr v, r1) \<Rightarrow> runStmts h ss v r1)"
| "runStmts h (SDecl kind ds # ss) completion r =
     (case runDecls h ds r of
        (Inl er, r1) \<Rightarrow> (Inl er, r1)
      | (Inr v, r1) \<Rightarrow> runStmts h ss completion r1)"

fun isLexical :: "stmt \<Rightarrow> bool" where
  "isLexical (SDecl kind ds) = (kind \<noteq> KVar)"
| "isLexical (SExpr e) = False"

definition miniEval :: "hostfn \<Rightarrow> string \<Rightarrow> realm \<Rightarrow> outcome" where
  "miniEval h src r =
     (case parseProgram src of
        None \<Rightarrow> (Inl (jsError ''SyntaxError'' ''unexpected token''), r)
      | Some nodes \<Rightarrow>
          (let ss = map fst nodes
           in if filter isLexical ss \<noteq> [] \<or> ''__proto__'' \<in> set (varNamesOf ss) then (Inl unsupported, r)
              else runStmts h ss JUndefined (hoist (varNamesOf ss) r)))"

definition miniGlobals :: "(string \<times> jsval) list" where
  "miniGlobals =
     [(''Object'', JNative ''Object''), (''Array'', JNative ''Array''),
      (''Function'', JNative ''Function''), (''String'', JNative ''String''),
      (''Number'', JNative ''Number''), (''Boolean'', JNative ''Boolean''),
      (''Symbol'', JNative ''Symbol''), (''Math'', JNative ''Math''), (''Date'', JNative ''Date''),
      (''JSON'', JNative ''JSON''), (''Promise'', JNative ''Promise''), (''globalThis'', JGlobal),
      (''undefined'', JUndefined), (''NaN'', JNative ''NaN''), (''Infinity'', JNative ''Infinity'')]"

definition miniJS :: "(nat \<Rightarrow> nat) \<Rightarrow> service" where
  "miniJS clock =
     \<lparr>acornParse = miniParse, evalCode = miniEval, newContext = miniGlobals,
      dateNow = clock, stackLimit = 16\<rparr>"

section \<open>Runs of the driver\<close>

text \<open>
  One turn of the loop of \<open>executeNextStatement\<close> that neither fails nor pauses: the
  statement at the cursor is evaluated, no sentinel is found, the cursor moves on.
  \<open>advance K n e\<close> is the state after \<open>n\<close> such turns.
\<close>

definition stepOnce :: "service \<Rightarrow> engine \<Rightarrow> engine option" where
  "stepOnce K e =
     (if currentStatementIndex e \<ge> length (statements e) then None
      else (case vmEvalCode K (rewrittenStatement K e) (vm e) of
              (Inl err, r1) \<Rightarrow> None
            | (Inr val, r1) \<Rightarrow>
                (case findPauseMarker K (dump val) (rewrittenStatement K e) r1 of
                   (Some marker, r2) \<Rightarrow> None
                 | (None, r2) \<Rightarrow>
                     Some (e\<lparr>vm := r2, currentStatementIndex := currentStatementIndex e + 1\<rparr>))))"

primrec advance :: "service \<Rightarrow> nat \<Rightarrow> engine \<Rightarrow> engine option" where
  "advance K 0 e = Some e"
| "advance K (Suc n) e = (case stepOnce K e of None \<Rightarrow> None | Some e1 \<Rightarrow> advance K n e1)"




text \<open>Reading the parts of a result, and a host clock that ticks once per reading.\<close>

fun snapshotOf :: "error + ExecutionResult \<Rightarrow> VMState option" where
  "snapshotOf (Inr (Paused state request)) = Some state"
| "snapshotOf other = None"

fun requestOf :: "error + ExecutionResult \<Rightarrow> FetchRequest option" where
  "requestOf (Inr (Paused state request)) = Some request"
| "requestOf other = None"

definition tickingClock :: "nat \<Rightarrow> nat \<Rightarrow> nat" where
  "tickingClock start n = start + n"

definition okResponse :: "jsval \<Rightarrow> FetchResponse" where
  "okResponse d =
     \<lparr>resp_id = ''r'', resp_success = True, resp_status = 200, resp_statusText = ''OK'',
      resp_data = d, resp_error = None, resp_timestamp = 0\<rparr>"






section \<open>Properties of the driver\<close>

lemma stepOnce_fields:
  assumes "stepOnce K e = Some e1"
  shows "currentStatementIndex e1 = currentStatementIndex e + 1"
    and "statements e1 = statements e"
    and "allCode e1 = allCode e"
    and "currentStatementIndex e < length (statements e)"
  using assms unfolding stepOnce_def
  by (auto split: if_split_asm prod.split_asm sum.split_asm option.split_asm)

lemma stepOnce_exec:
  assumes "stepOnce K e = Some e1"
    and "currentStatementIndex e1 < length (statements e1)"
  shows "executeNextStatement K e = executeNextStatement K e1"
proof -
  from assms(1) have lt: "currentStatementIndex e < length (statements e)"
    by (rule stepOnce_fields)
  from assms(2) stepOnce_fields [OF assms(1)]
  have more: "\<not> currentStatementIndex e + 1 \<ge> length (statements e)" by simp
  show ?thesis
    using assms(1) lt more
    unfolding stepOnce_def
    by (subst executeNextStatement.simps)
       (auto split: if_split_asm prod.split_asm sum.split_asm option.split_asm)
qed

lemma advance_fields:
  "advance K n e = Some e1 \<Longrightarrow>
     currentStatementIndex e1 = currentStatementIndex e + n \<and> statements e1 = statements e
     \<and> allCode e1 = allCode e"
proof (induction n arbitrary: e)
  case 0
  then show ?case by simp
next
  case (Suc n)
  from Suc.prems obtain e2 where s: "stepOnce K e = Some e2" and a: "advance K n e2 = Some e1"
    by (auto split: option.split_asm)
  from Suc.IH [OF a] stepOnce_fields [OF s] show ?case by simp
qed

lemma advance_exec:
  "advance K n e = Some e1 \<Longrightarrow> currentStatementIndex e1 < length (statements e1) \<Longrightarrow>
     executeNextStatement K e = executeNextStatement K e1"
proof (induction n arbitrary: e)
  case 0
  then show ?case by simp
next
  case (Suc n)
  from Suc.prems(1) obtain e2 where s: "stepOnce K e = Some e2" and a: "advance K n e2 = Some e1"
    by (auto split: option.split_asm)
  from advance_fields [OF a] Suc.prems(2)
  have "currentStatementIndex e2 < length (statements e2)" by simp
  from stepOnce_exec [OF s this] Suc.IH [OF a Suc.prems(2)] show ?case by simp
qed







lemma exec_error_here:
  assumes "currentStatementIndex e < length (statements e)"
    and "vmEvalCode K (rewrittenStatement K e) (vm e) = (Inl err, r)"
  shows "executeNextStatement K e = (Inl (ScriptError (dump err)), e\<lparr>vm := r\<rparr>)"
  using assms by (subst executeNextStatement.simps) simp












lemma resume_data_only:
  assumes "resp_data a = resp_data b"
  shows "resume K state a e = resume K state b e"
  unfolding resume_def resumeReplay_def assms by (rule refl)


section \<open>JSON texts read back as object literals\<close>

























































section \<open>Scenario A\<close>

text \<open>
  Claim C1. With the reference parser and interpreter, \<open>execute\<close> of the source
  \<open>x = 1; y = fetch("https://x/1"); y;\<close> on a fresh driver pauses with a request whose url is
  \<open>https://x/1\<close>; resuming the snapshot with any response whose data is 42 and whose success
  flag is set completes with the result 42, on the same driver (\<open>resume\<close>) as well as on a
  fresh one (\<open>resumeExecution\<close>).
\<close>

theorem scenario_A:
  \<open>\<exists>snap request e.
      execute (miniJS (tickingClock 17)) ''x = 1; y = fetch("https://x/1"); y;''
         (initialize (miniJS (tickingClock 17))) = (Inr (Paused snap request), e)
    \<and> req_url request = JStr ''https://x/1''
    \<and> fst (resume (miniJS (tickingClock 17)) snap
             (response\<lparr>resp_data := JNum 42, resp_success := True\<rparr>) e) = Inr (Completed (JNum 42))
    \<and> executeCode (miniJS (tickingClock 17)) ''x = 1; y = fetch("https://x/1"); y;''
        = Inr (Paused snap request)
    \<and> resumeExecution (miniJS (tickingClock 17)) snap
          (response\<lparr>resp_data := JNum 42, resp_success := True\<rparr>) = Inr (Completed (JNum 42))\<close>
proof -
  let ?K = "miniJS (tickingClock 17)"
  let ?src = \<open>''x = 1; y = fetch("https://x/1"); y;''\<close>
  let ?resp = "response\<lparr>resp_data := JNum 42, resp_success := True\<rparr>"
  have F: "case execute ?K ?src (initialize ?K) of
             (res, e) \<Rightarrow>
               (case res of
                  Inl err \<Rightarrow> False
                | Inr x \<Rightarrow>
                    (case x of
                       Completed v \<Rightarrow> False
                     | Paused snap request \<Rightarrow>
                         req_url request = JStr ''https://x/1''
                         \<and> fst (resume ?K snap (okResponse (JNum 42)) e) = Inr (Completed (JNum 42))
                         \<and> fst (resume ?K snap (okResponse (JNum 42)) (initialize ?K))
                             = Inr (Completed (JNum 42))))"
    by code_simp
  obtain res e where x: "execute ?K ?src (initialize ?K) = (res, e)"
    by (cases "execute ?K ?src (initialize ?K)")
  from F x obtain y where res: "res = Inr y" by (cases res) simp_all
  from F x res obtain snap request where y: "y = Paused snap request" by (cases y) simp_all
  from F x res y have u: "req_url request = JStr ''https://x/1''"
    and r1: "fst (resume ?K snap (okResponse (JNum 42)) e) = Inr (Completed (JNum 42))"
    and r2: "fst (resume ?K snap (okResponse (JNum 42)) (initialize ?K)) = Inr (Completed (JNum 42))"
    by simp_all
  have d: "resp_data ?resp = resp_data (okResponse (JNum 42))" by (simp add: okResponse_def)
  from r1 resume_data_only [OF d, of ?K snap e]
  have s1: "fst (resume ?K snap ?resp e) = Inr (Completed (JNum 42))" by simp
  from r2 resume_data_only [OF d, of ?K snap "initialize ?K"]
  have s2: "resumeExecution ?K snap ?resp = Inr (Completed (JNum 42))"
    by (simp add: resumeExecution_def)
  from x res y have x1: "execute ?K ?src (initialize ?K) = (Inr (Paused snap request), e)" by simp
  then have x2: "executeCode ?K ?src = Inr (Paused snap request)" by (simp add: executeCode_def)
  from x1 u s1 x2 s2 show ?thesis by blast
qed

section \<open>Pause detection\<close>




section \<open>The cursor of a snapshot\<close>



section \<open>The round trip of the captured variables\<close>




section \<open>The sequence of requested URLs\<close>




section \<open>Submissions\<close>




section \<open>Evaluation errors\<close>

text \<open>
  Claim C7. A script-level evaluation error is a hard failure of the call and yields no
  snapshot. First conjunct (\<open>execute\<close>): when the run of a submission reaches, after \<open>n\<close>
  statements that neither failed nor paused, a statement whose evaluation by the interpreter
  reports an error, \<open>execute\<close> fails with that error (the \<open>throw new Error\<close> of
  \<open>executeNextStatement\<close>) and its result carries no snapshot. Second conjunct (\<open>resume\<close>):
  when the replayed statement reports an error, \<open>resume\<close> fails with that error and its result
  carries no snapshot.
\<close>

theorem evaluation_error_is_hard_failure:
  "(advance K n (beginRun K src e0) = Some e
      \<and> currentStatementIndex e < length (statements e)
      \<and> vmEvalCode K (rewrittenStatement K e) (vm e) = (Inl err, r)
    \<longrightarrow> execute K src e0 = (Inl (ScriptError (dump err)), e\<lparr>vm := r\<rparr>)
        \<and> snapshotOf (fst (execute K src e0)) = None)
   \<and> (restoreState K state e0 = Inr e1
      \<and> stringifyTemplate (resp_data response) = Some dataText
      \<and> vmEvalCode K (injectCode dataText) (vm e1) = (Inr injected, r1)
      \<and> currentStatementIndex e1 < length (statements e1)
      \<and> vmEvalCode K (transformedStatement K e1) r1 = (Inl err', r2)
    \<longrightarrow> resume K state response e0 = (Inl (ScriptError (dump err')), e1\<lparr>vm := r2\<rparr>)
        \<and> snapshotOf (fst (resume K state response e0)) = None)"
proof (intro conjI impI)
  assume h: "advance K n (beginRun K src e0) = Some e
      \<and> currentStatementIndex e < length (statements e)
      \<and> vmEvalCode K (rewrittenStatement K e) (vm e) = (Inl err, r)"
  then have a: "advance K n (beginRun K src e0) = Some e"
    and c: "currentStatementIndex e < length (statements e)"
    and v: "vmEvalCode K (rewrittenStatement K e) (vm e) = (Inl err, r)" by simp_all
  from advance_exec [OF a c] exec_error_here [OF c v]
  show x: "execute K src e0 = (Inl (ScriptError (dump err)), e\<lparr>vm := r\<rparr>)"
    by (simp add: execute_def)
  show "snapshotOf (fst (execute K src e0)) = None" by (simp add: x)
next
  assume h: "restoreState K state e0 = Inr e1
      \<and> stringifyTemplate (resp_data response) = Some dataText
      \<and> vmEvalCode K (injectCode dataText) (vm e1) = (Inr injected, r1)
      \<and> currentStatementIndex e1 < length (statements e1)
      \<and> vmEvalCode K (transformedStatement K e1) r1 = (Inl err', r2)"
  then have "resumeReplay K state response e0 = (Inl (ScriptError (dump err')), e1\<lparr>vm := r2\<rparr>)"
    by (simp add: resumeReplay_def)
  then show x: "resume K state response e0 = (Inl (ScriptError (dump err')), e1\<lparr>vm := r2\<rparr>)"
    by (simp add: resume_def)
  show "snapshotOf (fst (resume K state response e0)) = None" by (simp add: x)
qed

theorem evaluation_error_is_hard_failure_witness:
  \<open>fst (execute (miniJS (tickingClock 17)) ''x = 1; nope;'' (initialize (miniJS (tickingClock 17))))
      = Inl (ScriptError (jsError ''ReferenceError'' ''nope is not defined''))
   \<and> fst (resume (miniJS (tickingClock 17))
        \<lparr>state_id = ''state_18'', state_code = ''y = fetch("a)b");'',
         state_variables = [(''y'', JStr ''__FETCH_PAUSE__fetch_17_1'')], state_timestamp = 19,
         state_currentStatementIndex = 0, state_statements = [''y = fetch("a)b");'']\<rparr>
        (okResponse (JNum 42)) (initialize (miniJS (tickingClock 17))))
      = Inl (ScriptError (jsError ''SyntaxError'' ''unexpected token''))\<close>
proof -
  let ?K = "miniJS (tickingClock 17)"
  let ?init = "initialize ?K"
  let ?src = \<open>''x = 1; nope;''\<close>
  let ?refErr = "jsError ''ReferenceError'' ''nope is not defined''"
  have "case advance ?K 1 (beginRun ?K ?src ?init) of
          None \<Rightarrow> False
        | Some e \<Rightarrow> currentStatementIndex e < length (statements e)
            \<and> fst (vmEvalCode ?K (rewrittenStatement ?K e) (vm e)) = Inl ?refErr"
    by code_simp
  then obtain e where a: "advance ?K 1 (beginRun ?K ?src ?init) = Some e"
    and c: "currentStatementIndex e < length (statements e)"
    and f: "fst (vmEvalCode ?K (rewrittenStatement ?K e) (vm e)) = Inl ?refErr"
    by (cases "advance ?K 1 (beginRun ?K ?src ?init)") (auto simp del: advance.simps)
  obtain r where v: "vmEvalCode ?K (rewrittenStatement ?K e) (vm e) = (Inl ?refErr, r)"
    using f by (cases "vmEvalCode ?K (rewrittenStatement ?K e) (vm e)") simp
  from evaluation_error_is_hard_failure [of ?K 1 ?src ?init e ?refErr r] a c v
  have x: "execute ?K ?src ?init = (Inl (ScriptError (dump ?refErr)), e\<lparr>vm := r\<rparr>)" by blast
  have d: "dump ?refErr = ?refErr" by code_simp
  let ?snap = \<open>\<lparr>state_id = ''state_18'', state_code = ''y = fetch("a)b");'',
         state_variables = [(''y'', JStr ''__FETCH_PAUSE__fetch_17_1'')], state_timestamp = 19,
         state_currentStatementIndex = 0, state_statements = [''y = fetch("a)b");'']\<rparr>\<close>
  let ?synErr = "jsError ''SyntaxError'' ''unexpected token''"
  have F: "case restoreState ?K ?snap ?init of
          Inl x \<Rightarrow> False
        | Inr e1 \<Rightarrow>
            (case vmEvalCode ?K (injectCode ''42'') (vm e1) of
               (res, r1) \<Rightarrow>
                 (case res of
                    Inl x \<Rightarrow> False
                  | Inr injected \<Rightarrow>
                      currentStatementIndex e1 < length (statements e1)
                      \<and> fst (vmEvalCode ?K (transformedStatement ?K e1) r1) = Inl ?synErr))"
    by code_simp
  obtain e1 where r1: "restoreState ?K ?snap ?init = Inr e1"
    using F by (cases "restoreState ?K ?snap ?init") simp_all
  obtain res r1 where i: "vmEvalCode ?K (injectCode ''42'') (vm e1) = (res, r1)"
    by (cases "vmEvalCode ?K (injectCode ''42'') (vm e1)")
  obtain injected where res: "res = Inr injected"
    using F r1 i by (cases res) simp_all
  from i res have r3: "vmEvalCode ?K (injectCode ''42'') (vm e1) = (Inr injected, r1)" by simp
  from F r1 r3 have r4: "currentStatementIndex e1 < length (statements e1)"
    and f5: "fst (vmEvalCode ?K (transformedStatement ?K e1) r1) = Inl ?synErr"
    by simp_all
  obtain r2 where r5: "vmEvalCode ?K (transformedStatement ?K e1) r1 = (Inl ?synErr, r2)"
    using f5 by (cases "vmEvalCode ?K (transformedStatement ?K e1) r1") simp
  have r2: "stringifyTemplate (resp_data (okResponse (JNum 42))) = Some ''42''" by code_simp
  from evaluation_error_is_hard_failure [of ?K _ _ ?init _ _ _ ?snap e1 "okResponse (JNum 42)" "''42''" injected r1 ?synErr r2]
    r1 r2 r3 r4 r5
  have y: "resume ?K ?snap (okResponse (JNum 42)) ?init = (Inl (ScriptError (dump ?synErr)), e1\<lparr>vm := r2\<rparr>)"
    by blast
  have d': "dump ?synErr = ?synErr" by code_simp
  from x d y d' show ?thesis by simp
qed

section \<open>Captured variables\<close>



section \<open>Parse failures\<close>

text \<open>
  Claim C9. When the parser fails on a submission, \<open>parseCodeIntoStatements\<close> returns the
  submission as a one-element list, and \<open>execute\<close> evaluates that text as it stands: the call
  fails only with the error the interpreter reports for it, pauses when its value is a
  sentinel, and completes with its value otherwise.
\<close>

theorem parse_failure_falls_back:
  "acornParse K src = None \<longrightarrow>
     parseCodeIntoStatements K src = [src]
     \<and> execute K src e =
         (case vmEvalCode K src (vm e) of
            (Inl err, r1) \<Rightarrow> (Inl (ScriptError (dump err)), (beginRun K src e)\<lparr>vm := r1\<rparr>)
          | (Inr val, r1) \<Rightarrow>
              if isPauseMarker (dump val)
              then pauseForFetch K (dump val) ((beginRun K src e)\<lparr>vm := r1\<rparr>)
              else (Inr (Completed (dump val)),
                    (beginRun K src e)\<lparr>vm := r1, currentStatementIndex := 1\<rparr>))"
proof
  assume n: "acornParse K src = None"
  then have p: "parseCodeIntoStatements K src = [src]"
    by (simp add: parseCodeIntoStatements_def)
  from n have x: "extractVariableNames K src = []"
    by (simp add: extractVariableNames_def)
  from p x have rw: "rewrittenStatement K (beginRun K src e) = src"
    by (simp add: rewrittenStatement_def beginRun_def)
  from x have fp: "\<And>v r. findPauseMarker K v src r = (if isPauseMarker v then (Some v, r) else (None, r))"
    by (simp add: findPauseMarker_def)
  have vm: "vm (beginRun K src e) = vm e" by (simp add: beginRun_def)
  have c: "currentStatementIndex (beginRun K src e) = 0" "statements (beginRun K src e) = [src]"
    using p by (simp_all add: beginRun_def)
  show "parseCodeIntoStatements K src = [src]
     \<and> execute K src e =
         (case vmEvalCode K src (vm e) of
            (Inl err, r1) \<Rightarrow> (Inl (ScriptError (dump err)), (beginRun K src e)\<lparr>vm := r1\<rparr>)
          | (Inr val, r1) \<Rightarrow>
              if isPauseMarker (dump val)
              then pauseForFetch K (dump val) ((beginRun K src e)\<lparr>vm := r1\<rparr>)
              else (Inr (Completed (dump val)),
                    (beginRun K src e)\<lparr>vm := r1, currentStatementIndex := 1\<rparr>))"
    unfolding execute_def
    by (subst executeNextStatement.simps)
       (simp add: p rw fp vm c split: prod.split sum.split)
qed

theorem parse_failure_falls_back_witness:
  \<open>parseCodeIntoStatements (miniJS (tickingClock 17)) ''x = ;'' = [''x = ;'']
   \<and> fst (execute (miniJS (tickingClock 17)) ''x = ;'' (initialize (miniJS (tickingClock 17))))
      = Inl (ScriptError (jsError ''SyntaxError'' ''unexpected token''))\<close>
proof -
  let ?K = "miniJS (tickingClock 17)"
  have n: "acornParse ?K ''x = ;'' = None" by code_simp
  have v: "fst (vmEvalCode ?K ''x = ;'' (vm (initialize ?K))) = Inl (jsError ''SyntaxError'' ''unexpected token'')"
    by code_simp
  have d: "dump (jsError ''SyntaxError'' ''unexpected token'') = jsError ''SyntaxError'' ''unexpected token''"
    by code_simp
  from parse_failure_falls_back [of ?K "''x = ;''" "initialize ?K"] n
  have "parseCodeIntoStatements ?K ''x = ;'' = [''x = ;'']"
    and "execute ?K ''x = ;'' (initialize ?K) =
         (case vmEvalCode ?K ''x = ;'' (vm (initialize ?K)) of
            (Inl err, r1) \<Rightarrow> (Inl (ScriptError (dump err)), (beginRun ?K ''x = ;'' (initialize ?K))\<lparr>vm := r1\<rparr>)
          | (Inr val, r1) \<Rightarrow>
              if isPauseMarker (dump val)
              then pauseForFetch ?K (dump val) ((beginRun ?K ''x = ;'' (initialize ?K))\<lparr>vm := r1\<rparr>)
              else (Inr (Completed (dump val)),
                    (beginRun ?K ''x = ;'' (initialize ?K))\<lparr>vm := r1, currentStatementIndex := 1\<rparr>))"
    by blast+
  with v d show ?thesis
    by (cases "vmEvalCode ?K ''x = ;'' (vm (initialize ?K))") simp
qed

section \<open>The interceptor and a failed write of the descriptor\<close>

text \<open>
  Claim C10. Once its arguments are read, the interceptor returns the sentinel of the new
  request id; the outcome of evaluating the store code has no part in the value returned
  (first conjunct: the only failure left is that of \<open>JSON.stringify\<close> on the options). A URL
  with a double quote breaks the store code (second conjunct: the interpreter reports a syntax
  error and leaves the globals as they were). In \<open>y = fetch('a"b', fetch("u1"));\<close> the inner
  call stores its descriptor, the write of the outer call fails, and the pause triggered by the
  sentinel of the outer call (id \<open>fetch_18_2\<close>) reports the request \<open>fetch_17_1\<close> with the url
  \<open>u1\<close>, which is not the url \<open>a"b\<close> of the call whose sentinel was found.
\<close>

theorem fetch_returns_sentinel_when_store_fails:
  \<open>fst (fetchFunc K (Suc depth) (url # others) r)
     = (case stringifyTemplate (case others of [] \<Rightarrow> JObj [] | options # _ \<Rightarrow> dump options) of
          None \<Rightarrow> Inl (jsError ''TypeError'' ''Do not know how to serialize a BigInt'')
        | Some optsText \<Rightarrow>
            Inr (JStr (pauseMarker @ ''fetch_'' @ showNat (dateNow K (clockReads r)) @ ''_''
                         @ showNat (fetchCounter r + 1))))
   \<and> evalCode (miniJS (tickingClock 17)) h
        (storeCode ''fetch_18_2'' (toStringJS (dump (JStr ''a"b''))) ''"__FETCH_PAUSE__fetch_17_1"'') r
       = (Inl (jsError ''SyntaxError'' ''unexpected token''), r)
   \<and> map_option state_variables
         (snapshotOf (executeCode (miniJS (tickingClock 17)) ''y = fetch('a"b', fetch("u1"));''))
       = Some [(''y'', JStr ''__FETCH_PAUSE__fetch_18_2'')]
   \<and> map_option req_id
         (requestOf (executeCode (miniJS (tickingClock 17)) ''y = fetch('a"b', fetch("u1"));''))
       = Some (JStr ''fetch_17_1'')
   \<and> map_option req_url
         (requestOf (executeCode (miniJS (tickingClock 17)) ''y = fetch('a"b', fetch("u1"));''))
       = Some (JStr ''u1'')\<close>
proof -
  have one: "fst (fetchFunc K (Suc depth) (url # others) r)
     = (case stringifyTemplate (case others of [] \<Rightarrow> JObj [] | options # _ \<Rightarrow> dump options) of
          None \<Rightarrow> Inl (jsError ''TypeError'' ''Do not know how to serialize a BigInt'')
        | Some optsText \<Rightarrow>
            Inr (JStr (pauseMarker @ ''fetch_'' @ showNat (dateNow K (clockReads r)) @ ''_''
                         @ showNat (fetchCounter r + 1))))"
    by (simp add: Let_def split: option.split)
  have \<open>parseProgram
         (storeCode ''fetch_18_2'' (toStringJS (dump (JStr ''a"b''))) ''"__FETCH_PAUSE__fetch_17_1"'')
        = None\<close>
    by code_simp
  then have two: \<open>evalCode (miniJS (tickingClock 17)) h
        (storeCode ''fetch_18_2'' (toStringJS (dump (JStr ''a"b''))) ''"__FETCH_PAUSE__fetch_17_1"'') r
       = (Inl (jsError ''SyntaxError'' ''unexpected token''), r)\<close>
    by (simp add: miniJS_def miniEval_def)
  have three: \<open>map_option state_variables
         (snapshotOf (executeCode (miniJS (tickingClock 17)) ''y = fetch('a"b', fetch("u1"));''))
       = Some [(''y'', JStr ''__FETCH_PAUSE__fetch_18_2'')]
   \<and> map_option req_id
         (requestOf (executeCode (miniJS (tickingClock 17)) ''y = fetch('a"b', fetch("u1"));''))
       = Some (JStr ''fetch_17_1'')
   \<and> map_option req_url
         (requestOf (executeCode (miniJS (tickingClock 17)) ''y = fetch('a"b', fetch("u1"));''))
       = Some (JStr ''u1'')\<close>
    by code_simp
  from one two three show ?thesis by (simp only: simp_thms)
qed

end
